theory Spec2Isabelle
  imports Complex_Main "HOL-Library.AList" "HOL-Library.Sublist"
begin

section \<open>Exceptions\<close>

text \<open>The external operations that can raise, each named by the key or id it works on.\<close>

datatype store_op =
    RedisKeys string
  | RedisGet string
  | RedisIncr string
  | RedisDelete string
  | DbGetOrCreate string
  | DbSave string
  | DbUpdateRate string

text \<open>
  The exceptions the handlers and tasks of \<^verbatim>\<open>apps/blog\<close> raise or catch.
  \<^verbatim>\<open>NotFound\<close> and \<^verbatim>\<open>APIException\<close> are the REST framework's classes
  (\<^verbatim>\<open>NotFound\<close> is a subclass of \<^verbatim>\<open>APIException\<close>, which is a subclass of
  \<^verbatim>\<open>Exception\<close>), with their detail. \<^verbatim>\<open>UnboundLocalError\<close> is what Python raises
  when the local variable named is read before it is assigned; \<^verbatim>\<open>TypeError\<close> is what
  \<^verbatim>\<open>int(None)\<close> raises; \<^verbatim>\<open>FieldError\<close> is what the ORM raises for a keyword that
  names no field of the model; \<^verbatim>\<open>IntegrityError\<close> is what it raises for a row
  without its post; \<^verbatim>\<open>StoreError\<close> stands for whatever an external store
  operation raises when it fails. Every one of them is an \<^verbatim>\<open>Exception\<close>, so
  \<^verbatim>\<open>except Exception\<close> catches all.
\<close>

datatype error =
    NotFound string
  | APIException string
  | UnboundLocalError string
  | TypeError
  | FieldError string
  | IntegrityError
  | StoreError store_op

text \<open>The \<^verbatim>\<open>status_code\<close> class attribute the framework answers with.\<close>

fun status_code :: "error \<Rightarrow> nat" where
  "status_code (NotFound _) = 404"
| "status_code _ = 500"

section \<open>Data model\<close>

record category =
  cat_id :: string
  cat_slug :: string
  cat_name :: string
  cat_title :: string
  cat_description :: string
  cat_parent_slug :: "string option"

record post =
  post_id :: string
  post_title :: string
  post_description :: string
  post_content :: string
  post_keywords :: string
  post_slug :: string
  post_category :: category

text \<open>
  One row of \<^verbatim>\<open>PostAnalytics\<close>. The click-through rate is a float in the code;
  it is an exact rational here.
\<close>

record analytics =
  views :: int
  impressions :: int
  clicks :: int
  click_through_rate :: rat

text \<open>
  The line \<^verbatim>\<open>print(f"Error syncing impressions for {key}: {str(e)}")\<close> of the
  reconciliation task (tasks.py, line 58), by the key and the exception that determine
  its text.
\<close>

datatype log_line = Error_syncing string error

text \<open>
  The state all handlers and tasks share.
  \<^item> \<open>postobjects\<close>: the rows of \<^verbatim>\<open>Post.postobjects.all()\<close>, in the store's order;
  \<^item> \<open>category_rows\<close>: the rows of \<^verbatim>\<open>Category.objects\<close>;
  \<^item> \<open>post_analytics\<close>: the \<^verbatim>\<open>PostAnalytics\<close> table, by post id;
  \<^item> \<open>redis\<close>: the counters of \<^verbatim>\<open>redis_client\<close>, an association list so that
    \<^verbatim>\<open>keys\<close> can enumerate it; only \<^verbatim>\<open>INCR\<close> writes them, so the values are integers;
  \<^item> \<open>post_cache\<close>, \<open>category_cache\<close>: the entries of \<^verbatim>\<open>django.core.cache.cache\<close>
    under the \<^verbatim>\<open>post_list:\<close> and \<^verbatim>\<open>category_list:\<close> keys, each with its expiry time;
  \<^item> \<open>faulty\<close>: the external operations that raise when called;
  \<^item> \<open>log\<close>: the lines the reconciliation task prints.
\<close>

record world =
  postobjects :: "post list"
  category_rows :: "category list"
  post_analytics :: "string \<rightharpoonup> analytics"
  redis :: "(string \<times> int) list"
  post_cache :: "string \<rightharpoonup> (post list \<times> nat)"
  category_cache :: "string \<rightharpoonup> (category list \<times> nat)"
  faulty :: "store_op \<Rightarrow> bool"
  log :: "log_line list"

type_synonym 'a result = "(error + 'a) \<times> world"

section \<open>The language and the libraries\<close>

text \<open>
  What the interpreter and the libraries compute, taken as parameters:
  \<^item> \<open>uuid_parse\<close> is \<^verbatim>\<open>uuid.UUID\<close>: the canonical form of a token that parses,
    \<open>None\<close> for one that raises \<^verbatim>\<open>ValueError\<close>;
  \<^item> \<open>order_posts\<close> and \<open>order_categories\<close> are the store's \<^verbatim>\<open>order_by\<close> for a
    field name (a leading \<^verbatim>\<open>-\<close> for descending);
  \<^item> \<open>str_strip\<close> is \<^verbatim>\<open>str.strip()\<close>;
  \<^item> \<open>list_repr\<close> is how an f-string prints a list of strings (its \<^verbatim>\<open>repr\<close>);
  \<^item> \<open>exception_text\<close> is \<^verbatim>\<open>str(e)\<close> for an exception that the interpreter, the
    ORM or a store client raised; the wording depends on their versions.
\<close>

record env =
  uuid_parse :: "string \<Rightarrow> string option"
  order_posts :: "string \<Rightarrow> post list \<Rightarrow> post list"
  order_categories :: "string \<Rightarrow> category list \<Rightarrow> category list"
  str_strip :: "string \<Rightarrow> string"
  list_repr :: "string list \<Rightarrow> string"
  exception_text :: "error \<Rightarrow> string"

text \<open>\<^verbatim>\<open>str(e)\<close>: the detail of an API exception, the library's text for the others.\<close>

definition error_str :: "env \<Rightarrow> error \<Rightarrow> string" where
  "error_str e err =
     (case err of
        NotFound d \<Rightarrow> d
      | APIException d \<Rightarrow> d
      | _ \<Rightarrow> exception_text e err)"

section \<open>Query objects\<close>

text \<open>
  The \<^verbatim>\<open>Q\<close> objects \<^verbatim>\<open>PostListView.get\<close> builds over posts: a lookup on one field,
  \<^verbatim>\<open>|\<close> of two, and the empty \<^verbatim>\<open>Q()\<close>.
\<close>

datatype q =
    Q_empty
  | Q_category_id string
  | Q_category_slug string
  | Q_title_icontains string
  | Q_description_icontains string
  | Q_content_icontains string
  | Q_keywords_icontains string
  | Q_or q q

text \<open>\<^verbatim>\<open>a |= b\<close>: combining with the empty \<^verbatim>\<open>Q()\<close> gives the other operand.\<close>

fun q_or :: "q \<Rightarrow> q \<Rightarrow> q" where
  "q_or Q_empty b = b"
| "q_or a Q_empty = a"
| "q_or a b = Q_or a b"

text \<open>ASCII lower case, and the case-insensitive substring test of \<^verbatim>\<open>__icontains\<close>.\<close>

definition lower_char :: "char \<Rightarrow> char" where
  "lower_char c =
     (let n = (of_char c :: nat) in if 65 \<le> n \<and> n \<le> 90 then char_of (n + 32) else c)"

definition icontains :: "string \<Rightarrow> string \<Rightarrow> bool" where
  "icontains field needle = sublist (map lower_char needle) (map lower_char field)"

text \<open>
  Whether a row satisfies a query object. \<open>uuid_parse\<close> is \<^verbatim>\<open>uuid.UUID\<close> of the
  standard library, a parameter: the canonical form of a token that parses, \<open>None\<close> for
  one that raises \<^verbatim>\<open>ValueError\<close>. The id lookup compares the parsed value.
\<close>

fun q_matches :: "(string \<Rightarrow> string option) \<Rightarrow> q \<Rightarrow> post \<Rightarrow> bool" where
  "q_matches up Q_empty p = True"
| "q_matches up (Q_category_id t) p = (up t = Some (cat_id (post_category p)))"
| "q_matches up (Q_category_slug t) p = (cat_slug (post_category p) = t)"
| "q_matches up (Q_title_icontains s) p = icontains (post_title p) s"
| "q_matches up (Q_description_icontains s) p = icontains (post_description p) s"
| "q_matches up (Q_content_icontains s) p = icontains (post_content p) s"
| "q_matches up (Q_keywords_icontains s) p = icontains (post_keywords p) s"
| "q_matches up (Q_or a b) p = (q_matches up a p \<or> q_matches up b p)"

definition filter_posts :: "(string \<Rightarrow> string option) \<Rightarrow> q \<Rightarrow> post list \<Rightarrow> post list" where
  "filter_posts up qq ps = filter (q_matches up qq) ps"

text \<open>
  The loop of \<^verbatim>\<open>PostListView.get\<close> over the category tokens (views.py, lines 68-81):
  a token that \<^verbatim>\<open>uuid.UUID\<close> accepts adds an id lookup, one that raises
  \<^verbatim>\<open>ValueError\<close> adds a slug lookup.
\<close>

fun category_queries :: "(string \<Rightarrow> string option) \<Rightarrow> q \<Rightarrow> string list \<Rightarrow> q" where
  "category_queries up acc [] = acc"
| "category_queries up acc (c # cs) =
     (case up c of
        Some _ \<Rightarrow> category_queries up (q_or acc (Q_category_id c)) cs
      | None \<Rightarrow> category_queries up (q_or acc (Q_category_slug c)) cs)"

text \<open>What one token asks of a row, as the claim words it.\<close>

definition token_matches :: "(string \<Rightarrow> string option) \<Rightarrow> post \<Rightarrow> string \<Rightarrow> bool" where
  "token_matches up p t =
     (case up t of
        Some u \<Rightarrow> cat_id (post_category p) = u
      | None \<Rightarrow> cat_slug (post_category p) = t)"


text \<open>Lines 67-82 of views.py: the filter is applied only when the list is not empty.\<close>

definition filter_by_categories ::
  "(string \<Rightarrow> string option) \<Rightarrow> string list \<Rightarrow> post list \<Rightarrow> post list" where
  "filter_by_categories up categories posts =
     (if categories \<noteq> [] then filter_posts up (category_queries up Q_empty categories) posts
      else posts)"

text \<open>Lines 59-64 of views.py: the search text against four fields, OR-combined.\<close>

definition search_query :: "string \<Rightarrow> q" where
  "search_query search =
     Q_or (Q_or (Q_or (Q_title_icontains search) (Q_description_icontains search))
                (Q_content_icontains search))
          (Q_keywords_icontains search)"

section \<open>Requests, cache keys and the cache\<close>

text \<open>The query parameters the two list handlers read; \<open>None\<close> is an absent parameter.\<close>

record request =
  param_search :: "string option"
  param_sorting :: "string option"
  param_ordering :: "string option"
  param_category :: "string list"
  param_p :: "string option"
  param_parent_slug :: "string option"

text \<open>\<^verbatim>\<open>query_params.get(name, default)\<close>.\<close>

definition get_default :: "'a option \<Rightarrow> 'a \<Rightarrow> 'a" where
  "get_default x d = (case x of None \<Rightarrow> d | Some v \<Rightarrow> v)"

text \<open>How an f-string prints an optional string: \<^verbatim>\<open>None\<close> as its name.\<close>

definition py_str :: "string option \<Rightarrow> string" where
  "py_str x = (case x of None \<Rightarrow> ''None'' | Some s \<Rightarrow> s)"

text \<open>A truthy string parameter: present and not empty.\<close>

definition truthy :: "string option \<Rightarrow> bool" where
  "truthy x = (case x of None \<Rightarrow> False | Some s \<Rightarrow> s \<noteq> [])"

text \<open>Line 39 of views.py.\<close>

definition post_list_cache_key ::
  "env \<Rightarrow> string \<Rightarrow> string option \<Rightarrow> string option \<Rightarrow> string list \<Rightarrow> string \<Rightarrow> string" where
  "post_list_cache_key e search sorting ordering_v categories page =
     ''post_list:'' @ search @ '':'' @ py_str sorting @ '':'' @ py_str ordering_v @ '':''
       @ list_repr e categories @ '':'' @ page"

text \<open>Line 200 of views.py.\<close>

definition category_list_cache_key ::
  "string \<Rightarrow> string option \<Rightarrow> string option \<Rightarrow> string \<Rightarrow> string option \<Rightarrow> string" where
  "category_list_cache_key page ordering_v sorting search parent_slug =
     ''category_list:'' @ page @ '':'' @ py_str ordering_v @ '':'' @ py_str sorting @ '':''
       @ search @ '':'' @ py_str parent_slug"

text \<open>
  \<^verbatim>\<open>cache.get(key)\<close> at time \<open>now\<close> (seconds): the value while the entry has not
  expired, \<open>None\<close> otherwise. \<^verbatim>\<open>cache.set(key, value, timeout)\<close> overwrites the entry
  and lets it expire \<open>timeout\<close> seconds later.
\<close>

definition cache_get :: "nat \<Rightarrow> (string \<rightharpoonup> ('v \<times> nat)) \<Rightarrow> string \<Rightarrow> 'v option" where
  "cache_get now c k =
     (case c k of None \<Rightarrow> None | Some (v, expires) \<Rightarrow> if now < expires then Some v else None)"

definition cache_set ::
  "nat \<Rightarrow> (string \<rightharpoonup> ('v \<times> nat)) \<Rightarrow> string \<Rightarrow> 'v \<Rightarrow> nat \<Rightarrow> (string \<rightharpoonup> ('v \<times> nat))" where
  "cache_set now c k v timeout = c(k \<mapsto> (v, now + timeout))"

section \<open>The fast counter store\<close>

text \<open>\<^verbatim>\<open>redis_client.incr(key)\<close>: an absent key counts from 0; the new total is returned.\<close>

definition redis_incr :: "string \<Rightarrow> world \<Rightarrow> int result" where
  "redis_incr k w =
     (if faulty w (RedisIncr k) then (Inl (StoreError (RedisIncr k)), w)
      else (let v = (case map_of (redis w) k of None \<Rightarrow> 0 | Some n \<Rightarrow> n) + 1
            in (Inr v, w\<lparr>redis := AList.update k v (redis w)\<rparr>)))"

text \<open>\<^verbatim>\<open>redis_client.keys(prefix + "*")\<close>: every key with the prefix, each once.\<close>

definition redis_keys :: "string \<Rightarrow> world \<Rightarrow> (string list) result" where
  "redis_keys pre w =
     (if faulty w (RedisKeys pre) then (Inl (StoreError (RedisKeys pre)), w)
      else (Inr (remdups (filter (prefix pre) (map fst (redis w)))), w))"

text \<open>\<^verbatim>\<open>redis_client.get(key)\<close>: \<open>None\<close> for an absent key.\<close>

definition redis_get :: "string \<Rightarrow> world \<Rightarrow> (int option) result" where
  "redis_get k w =
     (if faulty w (RedisGet k) then (Inl (StoreError (RedisGet k)), w)
      else (Inr (map_of (redis w) k), w))"

definition redis_delete :: "string \<Rightarrow> world \<Rightarrow> unit result" where
  "redis_delete k w =
     (if faulty w (RedisDelete k) then (Inl (StoreError (RedisDelete k)), w)
      else (Inr (), w\<lparr>redis := AList.delete k (redis w)\<rparr>))"

text \<open>
  The loops \<^verbatim>\<open>for post in posts: redis_client.incr(f"post:impressions:{post.id}")\<close>
  of the handlers: one \<^verbatim>\<open>INCR\<close> per row, in order; the first one that raises ends
  the loop, with the increments before it done.
\<close>

fun incr_impressions :: "string \<Rightarrow> string list \<Rightarrow> world \<Rightarrow> unit result" where
  "incr_impressions pre [] w = (Inr (), w)"
| "incr_impressions pre (i # ids) w =
     (case redis_incr (pre @ i) w of
        (Inl e, w') \<Rightarrow> (Inl e, w')
      | (Inr _, w') \<Rightarrow> incr_impressions pre ids w')"

section \<open>The list handlers\<close>

text \<open>
  What \<^verbatim>\<open>self.paginate(request, serialized)\<close> is given: the request and the rows
  serialised, in order. The serialisers' field selection and the page rendering are not
  modelled.
\<close>

datatype response =
    PostPage request "post list"
  | CategoryPage request "category list"

text \<open>
  Lines 85-91 of views.py. For \<^verbatim>\<open>most_viewed\<close> the handler annotates with
  \<^verbatim>\<open>F("analytics_cache__views")\<close>; \<^verbatim>\<open>analytics_cache\<close> is the \<^verbatim>\<open>to_attr\<close> of
  the prefetch of line 51 and no field of the model, so the ORM raises
  \<^verbatim>\<open>FieldError\<close> there.
\<close>

definition apply_post_sorting ::
  "env \<Rightarrow> string option \<Rightarrow> post list \<Rightarrow> error + post list" where
  "apply_post_sorting e sorting posts =
     (if truthy sorting then
        (if sorting = Some ''newest'' then Inr (order_posts e ''-created_at'' posts)
         else if sorting = Some ''recently_updated'' then Inr (order_posts e ''-updated_at'' posts)
         else if sorting = Some ''most_viewed'' then Inl (FieldError ''analytics_cache'')
         else Inr posts)
      else Inr posts)"

text \<open>Lines 93-97 of views.py.\<close>

definition apply_post_ordering :: "env \<Rightarrow> string option \<Rightarrow> post list \<Rightarrow> post list" where
  "apply_post_ordering e ordering_v posts =
     (if truthy ordering_v then
        (let posts1 = (if ordering_v = Some ''az'' then order_posts e ''title'' posts else posts)
         in if ordering_v = Some ''za'' then order_posts e ''-title'' posts1 else posts1)
      else posts)"

text \<open>The query of \<^verbatim>\<open>PostListView.get\<close> after the existence check (lines 57-97).\<close>

definition post_list_query :: "env \<Rightarrow> request \<Rightarrow> post list \<Rightarrow> error + post list" where
  "post_list_query e r posts =
     (let search = str_strip e (get_default (param_search r) []);
          posts1 = (if search \<noteq> [] then filter_posts (uuid_parse e) (search_query search) posts
                    else posts);
          posts2 = filter_by_categories (uuid_parse e) (param_category r) posts1
      in case apply_post_sorting e (param_sorting r) posts2 of
           Inl err \<Rightarrow> Inl err
         | Inr posts3 \<Rightarrow> Inr (apply_post_ordering e (param_ordering r) posts3))"

definition post_list_key :: "env \<Rightarrow> request \<Rightarrow> string" where
  "post_list_key e r =
     post_list_cache_key e (str_strip e (get_default (param_search r) [])) (param_sorting r)
       (param_ordering r) (param_category r) (get_default (param_p r) ''1'')"

text \<open>The body of the \<^verbatim>\<open>try\<close> of \<^verbatim>\<open>PostListView.get\<close> (lines 31-109), at time \<open>now\<close>.\<close>

definition post_list_body :: "env \<Rightarrow> nat \<Rightarrow> request \<Rightarrow> world \<Rightarrow> response result" where
  "post_list_body e now r w =
     (let cache_key = post_list_key e r;
          cached_posts = cache_get now (post_cache w) cache_key
      in if cached_posts \<noteq> None \<and> cached_posts \<noteq> Some [] then
           (case incr_impressions ''post:impressions:'' (map post_id (the cached_posts)) w of
              (Inl err, w') \<Rightarrow> (Inl err, w')
            | (Inr _, w') \<Rightarrow> (Inr (PostPage r (the cached_posts)), w'))
         else if postobjects w = [] then (Inl (NotFound ''No posts found.''), w)
         else
           (case post_list_query e r (postobjects w) of
              Inl err \<Rightarrow> (Inl err, w)
            | Inr posts \<Rightarrow>
                (let w1 = w\<lparr>post_cache :=
                              cache_set now (post_cache w) cache_key posts (60 * 5)\<rparr>
                 in case incr_impressions ''post:impressions:'' (map post_id posts) w1 of
                      (Inl err, w') \<Rightarrow> (Inl err, w')
                    | (Inr _, w') \<Rightarrow> (Inr (PostPage r posts), w'))))"

text \<open>
  \<^verbatim>\<open>PostListView.get\<close>: the \<^verbatim>\<open>except Exception\<close> of lines 110-111 catches whatever
  the body raises, \<^verbatim>\<open>NotFound\<close> included, and raises \<^verbatim>\<open>APIException\<close> with the
  message of the cause.
\<close>

definition wrap_unexpected :: "env \<Rightarrow> 'a result \<Rightarrow> 'a result" where
  "wrap_unexpected e res =
     (case res of
        (Inl err, w') \<Rightarrow>
          (Inl (APIException (''An unexpected error occurred: '' @ error_str e err)), w')
      | (Inr v, w') \<Rightarrow> (Inr v, w'))"

definition PostListView_get :: "env \<Rightarrow> nat \<Rightarrow> request \<Rightarrow> world \<Rightarrow> response result" where
  "PostListView_get e now r w = wrap_unexpected e (post_list_body e now r w)"

text \<open>Lines 225-231 of views.py: the search text against four fields of a category.\<close>

definition category_search_matches :: "string \<Rightarrow> category \<Rightarrow> bool" where
  "category_search_matches search c =
     (icontains (cat_name c) search \<or> icontains (cat_slug c) search \<or>
      icontains (cat_title c) search \<or> icontains (cat_description c) search)"

text \<open>Lines 234-240 of views.py, with the same \<^verbatim>\<open>FieldError\<close> for \<^verbatim>\<open>most_viewed\<close>.\<close>

definition apply_category_sorting ::
  "env \<Rightarrow> string option \<Rightarrow> category list \<Rightarrow> error + category list" where
  "apply_category_sorting e sorting cats =
     (if truthy sorting then
        (if sorting = Some ''newest'' then Inr (order_categories e ''-created_at'' cats)
         else if sorting = Some ''recently_updated''
           then Inr (order_categories e ''-updated_at'' cats)
         else if sorting = Some ''most_viewed'' then Inl (FieldError ''analytics_cache'')
         else Inr cats)
      else Inr cats)"

text \<open>
  Lines 242-246 of views.py. Both branches read the local variable \<^verbatim>\<open>posts\<close>, which
  \<^verbatim>\<open>CategoryListView.get\<close> assigns nowhere before: Python raises
  \<^verbatim>\<open>UnboundLocalError\<close> there. Any other value leaves the rows as they are.
\<close>

definition apply_category_ordering ::
  "string option \<Rightarrow> category list \<Rightarrow> error + category list" where
  "apply_category_ordering ordering_v cats =
     (if truthy ordering_v then
        (if ordering_v = Some ''az'' then Inl (UnboundLocalError ''posts'')
         else if ordering_v = Some ''za'' then Inl (UnboundLocalError ''posts'')
         else Inr cats)
      else Inr cats)"

definition category_list_key :: "env \<Rightarrow> request \<Rightarrow> string" where
  "category_list_key e r =
     category_list_cache_key (get_default (param_p r) ''1'') (param_ordering r) (param_sorting r)
       (str_strip e (get_default (param_search r) [])) (param_parent_slug r)"

text \<open>Lines 211-219: the children of the parent named, or the categories without parent.\<close>

definition category_base :: "request \<Rightarrow> world \<Rightarrow> category list" where
  "category_base r w =
     (if truthy (param_parent_slug r)
      then filter (\<lambda>c. cat_parent_slug c = param_parent_slug r) (category_rows w)
      else filter (\<lambda>c. cat_parent_slug c = None) (category_rows w))"

text \<open>The query of \<^verbatim>\<open>CategoryListView.get\<close> after the existence check (lines 224-246).\<close>

definition category_list_query ::
  "env \<Rightarrow> request \<Rightarrow> category list \<Rightarrow> error + category list" where
  "category_list_query e r cats =
     (let search = str_strip e (get_default (param_search r) []);
          cats1 = (if search \<noteq> [] then filter (category_search_matches search) cats else cats)
      in case apply_category_sorting e (param_sorting r) cats1 of
           Inl err \<Rightarrow> Inl err
         | Inr cats2 \<Rightarrow> apply_category_ordering (param_ordering r) cats2)"

text \<open>The body of the \<^verbatim>\<open>try\<close> of \<^verbatim>\<open>CategoryListView.get\<close> (lines 192-258).\<close>

definition category_list_body :: "env \<Rightarrow> nat \<Rightarrow> request \<Rightarrow> world \<Rightarrow> response result" where
  "category_list_body e now r w =
     (let cache_key = category_list_key e r;
          cached_categories = cache_get now (category_cache w) cache_key
      in if cached_categories \<noteq> None \<and> cached_categories \<noteq> Some [] then
           (case incr_impressions ''category:impressions:''
                   (map cat_id (the cached_categories)) w of
              (Inl err, w') \<Rightarrow> (Inl err, w')
            | (Inr _, w') \<Rightarrow> (Inr (CategoryPage r (the cached_categories)), w'))
         else if category_base r w = [] then (Inl (NotFound ''No categories found.''), w)
         else
           (case category_list_query e r (category_base r w) of
              Inl err \<Rightarrow> (Inl err, w)
            | Inr cats \<Rightarrow>
                (let w1 = w\<lparr>category_cache :=
                              cache_set now (category_cache w) cache_key cats (60 * 5)\<rparr>
                 in case incr_impressions ''category:impressions:'' (map cat_id cats) w1 of
                      (Inl err, w') \<Rightarrow> (Inl err, w')
                    | (Inr _, w') \<Rightarrow> (Inr (CategoryPage r cats), w'))))"

definition CategoryListView_get :: "env \<Rightarrow> nat \<Rightarrow> request \<Rightarrow> world \<Rightarrow> response result" where
  "CategoryListView_get e now r w = wrap_unexpected e (category_list_body e now r w)"

section \<open>The analytics records\<close>

text \<open>
  Modelled from the spec: the model class \<^verbatim>\<open>PostAnalytics\<close> (apps/blog/models.py) is
  not among the sources. A new row has zero counters (spec, section 3), and the rate of
  a row follows the recomputation rule of section 4.4:
  \<^verbatim>\<open>clickThroughRate = clicks / impressions if impressions > 0 else 0\<close>.
\<close>

definition new_analytics :: analytics where
  "new_analytics = \<lparr>views = 0, impressions = 0, clicks = 0, click_through_rate = 0\<rparr>"

definition ctr_of :: "int \<Rightarrow> int \<Rightarrow> rat" where
  "ctr_of c i = (if i > 0 then of_int c / of_int i else 0)"

text \<open>
  \<^verbatim>\<open>PostAnalytics.objects.get_or_create(post__id=post_id)\<close> (tasks.py, line 50): the
  row of the post when there is one. When there is none, the ORM builds the new row from
  the keyword arguments without \<^verbatim>\<open>__\<close>, which are none here: the row has no post and
  the insert raises \<^verbatim>\<open>IntegrityError\<close>. Nothing is created by this call.
\<close>

definition get_or_create_by_post_id :: "string \<Rightarrow> world \<Rightarrow> analytics result" where
  "get_or_create_by_post_id pid w =
     (if faulty w (DbGetOrCreate pid) then (Inl (StoreError (DbGetOrCreate pid)), w)
      else case post_analytics w pid of
             Some a \<Rightarrow> (Inr a, w)
           | None \<Rightarrow> (Inl IntegrityError, w))"

text \<open>
  \<^verbatim>\<open>PostAnalytics.objects.get_or_create(post=post)\<close> (views.py, line 175), for a post
  just read from the store: its row, or a new row for it.
\<close>

definition get_or_create_for_post :: "string \<Rightarrow> world \<Rightarrow> analytics result" where
  "get_or_create_for_post pid w =
     (if faulty w (DbGetOrCreate pid) then (Inl (StoreError (DbGetOrCreate pid)), w)
      else case post_analytics w pid of
             Some a \<Rightarrow> (Inr a, w)
           | None \<Rightarrow>
               (Inr new_analytics, w\<lparr>post_analytics := (post_analytics w)(pid \<mapsto> new_analytics)\<rparr>))"

text \<open>\<^verbatim>\<open>analytics.save()\<close>: the row of the table becomes the object in memory.\<close>

definition save :: "string \<Rightarrow> analytics \<Rightarrow> world \<Rightarrow> unit result" where
  "save pid a w =
     (if faulty w (DbSave pid) then (Inl (StoreError (DbSave pid)), w)
      else (Inr (), w\<lparr>post_analytics := (post_analytics w)(pid \<mapsto> a)\<rparr>))"

text \<open>
  Modelled from the spec: \<^verbatim>\<open>PostAnalytics._update_click_through_rate\<close>
  (apps/blog/models.py, not among the sources) recomputes the rate by the rule above. It
  writes the row itself: tasks.py calls it at line 54 after the \<^verbatim>\<open>save()\<close> of line 52,
  as the last write to the row. Being a write to the store, the call can raise.
\<close>

definition update_click_through_rate :: "string \<Rightarrow> analytics \<Rightarrow> world \<Rightarrow> analytics result" where
  "update_click_through_rate pid a w =
     (if faulty w (DbUpdateRate pid) then (Inl (StoreError (DbUpdateRate pid)), w)
      else (let a1 = a\<lparr>click_through_rate := ctr_of (clicks a) (impressions a)\<rparr>
            in (Inr a1, w\<lparr>post_analytics := (post_analytics w)(pid \<mapsto> a1)\<rparr>)))"

text \<open>
  Modelled from the spec: \<^verbatim>\<open>PostAnalytics.increment_click\<close> (apps/blog/models.py, not
  among the sources), as \<^verbatim>\<open>incrementClick\<close> of the spec, section 4.4: add 1 to
  \<^verbatim>\<open>clicks\<close>, recompute the click-through rate, persist.
\<close>

definition increment_click :: "string \<Rightarrow> analytics \<Rightarrow> world \<Rightarrow> analytics result" where
  "increment_click pid a w = update_click_through_rate pid (a\<lparr>clicks := clicks a + 1\<rparr>) w"

text \<open>
  \<^verbatim>\<open>IncrementPostClickView.post\<close> (views.py, lines 163-183) for the slug of the request
  data: the new number of clicks is the answer.
\<close>

definition IncrementPostClickView_post :: "env \<Rightarrow> string \<Rightarrow> world \<Rightarrow> int result" where
  "IncrementPostClickView_post e slug w =
     (case find (\<lambda>p. post_slug p = slug) (postobjects w) of
        None \<Rightarrow> (Inl (NotFound ''The requested post does not exist''), w)
      | Some p \<Rightarrow>
          (case get_or_create_for_post (post_id p) w of
             (Inl err, w1) \<Rightarrow>
               (Inl (APIException (''An error ocurred while updating post analytics: ''
                                    @ error_str e err)), w1)
           | (Inr a, w1) \<Rightarrow>
               (case increment_click (post_id p) a w1 of
                  (Inl err, w2) \<Rightarrow>
                    (Inl (APIException (''An error ocurred while updating post analytics: ''
                                         @ error_str e err)), w2)
                | (Inr a1, w2) \<Rightarrow> (Inr (clicks a1), w2))))"

section \<open>The reconciliation task\<close>

text \<open>\<^verbatim>\<open>key.decode("utf-8").split(":")[-1]\<close>: what follows the last colon.\<close>

definition last_segment :: "string \<Rightarrow> string" where
  "last_segment key = rev (takeWhile (\<lambda>c. c \<noteq> CHR '':'') (rev key))"

text \<open>
  Lines 47-48 of tasks.py: the post id of the key and the pending delta.
  \<^verbatim>\<open>int(None)\<close>, for a key that is gone, raises \<^verbatim>\<open>TypeError\<close>.
\<close>

definition sync_read :: "string \<Rightarrow> world \<Rightarrow> (string \<times> int) result" where
  "sync_read key w =
     (let pid = last_segment key
      in case redis_get key w of
           (Inl err, w1) \<Rightarrow> (Inl err, w1)
         | (Inr None, w1) \<Rightarrow> (Inl TypeError, w1)
         | (Inr (Some n), w1) \<Rightarrow> (Inr (pid, n), w1))"

text \<open>
  Lines 50-52 of tasks.py: the row is fetched, the delta is added to its impressions and
  the row is saved, with the rate it had.
\<close>

definition sync_save :: "string \<Rightarrow> int \<Rightarrow> world \<Rightarrow> analytics result" where
  "sync_save pid n w =
     (case get_or_create_by_post_id pid w of
        (Inl err, w1) \<Rightarrow> (Inl err, w1)
      | (Inr a, w1) \<Rightarrow>
          (let a1 = a\<lparr>impressions := impressions a + n\<rparr>
           in case save pid a1 w1 of
                (Inl err, w2) \<Rightarrow> (Inl err, w2)
              | (Inr _, w2) \<Rightarrow> (Inr a1, w2)))"

text \<open>Lines 54-56 of tasks.py: the rate is recomputed, then the key is deleted.\<close>

definition sync_finish :: "string \<Rightarrow> string \<Rightarrow> analytics \<Rightarrow> world \<Rightarrow> unit result" where
  "sync_finish key pid a1 w =
     (case update_click_through_rate pid a1 w of
        (Inl err, w1) \<Rightarrow> (Inl err, w1)
      | (Inr _, w1) \<Rightarrow> redis_delete key w1)"

text \<open>Lines 47-52: the part of an iteration that updates the analytics record.\<close>

definition sync_update :: "string \<Rightarrow> world \<Rightarrow> (string \<times> analytics) result" where
  "sync_update key w =
     (case sync_read key w of
        (Inl err, w1) \<Rightarrow> (Inl err, w1)
      | (Inr (pid, n), w1) \<Rightarrow>
          (case sync_save pid n w1 of
             (Inl err, w2) \<Rightarrow> (Inl err, w2)
           | (Inr a1, w2) \<Rightarrow> (Inr (pid, a1), w2)))"

text \<open>The body of the \<^verbatim>\<open>try\<close> for one key (lines 47-56).\<close>

definition sync_key_body :: "string \<Rightarrow> world \<Rightarrow> unit result" where
  "sync_key_body key w =
     (case sync_update key w of
        (Inl err, w1) \<Rightarrow> (Inl err, w1)
      | (Inr (pid, a1), w1) \<Rightarrow> sync_finish key pid a1 w1)"

text \<open>One iteration of the loop: the \<^verbatim>\<open>except Exception\<close> prints and goes on.\<close>

definition sync_key :: "string \<Rightarrow> world \<Rightarrow> world" where
  "sync_key key w =
     (case sync_key_body key w of
        (Inl err, w') \<Rightarrow> w'\<lparr>log := log w' @ [Error_syncing key err]\<rparr>
      | (Inr _, w') \<Rightarrow> w')"

text \<open>
  \<^verbatim>\<open>sync_impressions_to_db\<close> (tasks.py, lines 40-58). The enumeration is outside
  the \<^verbatim>\<open>try\<close>: when it raises, the task raises.
\<close>

definition sync_impressions_to_db :: "world \<Rightarrow> unit result" where
  "sync_impressions_to_db w =
     (case redis_keys ''post:impressions:'' w of
        (Inl err, w') \<Rightarrow> (Inl err, w')
      | (Inr keys, w') \<Rightarrow> (Inr (), fold sync_key keys w'))"

section \<open>Interleaving with request handlers\<close>

text \<open>
  The reconciliation task and the request handlers are separate processes on one counter
  store; each store command is atomic. For one key, a schedule is a sequence of:
  a handler's \<^verbatim>\<open>INCR\<close>; the task's read of the key (lines 47-48); the rest of the
  task's iteration (lines 50-56, which ends with the \<^verbatim>\<open>DELETE\<close>). Between its read
  and the rest the task holds the post id and the delta it read.
\<close>

datatype event = ClientIncr | JobRead | JobFlush

fun run_event ::
  "string \<Rightarrow> event \<Rightarrow> world \<times> (string \<times> int) option \<Rightarrow> world \<times> (string \<times> int) option" where
  "run_event key ClientIncr (w, held) = (snd (redis_incr key w), held)"
| "run_event key JobRead (w, held) =
     (case sync_read key w of
        (Inl err, w1) \<Rightarrow> (w1\<lparr>log := log w1 @ [Error_syncing key err]\<rparr>, None)
      | (Inr pn, w1) \<Rightarrow> (w1, Some pn))"
| "run_event key JobFlush (w, None) = (w, None)"
| "run_event key JobFlush (w, Some (pid, n)) =
     (case sync_save pid n w of
        (Inl err, w1) \<Rightarrow> (w1\<lparr>log := log w1 @ [Error_syncing key err]\<rparr>, None)
      | (Inr a1, w1) \<Rightarrow>
          (case sync_finish key pid a1 w1 of
             (Inl err, w2) \<Rightarrow> (w2\<lparr>log := log w2 @ [Error_syncing key err]\<rparr>, None)
           | (Inr _, w2) \<Rightarrow> (w2, None)))"

definition run_schedule ::
  "string \<Rightarrow> event list \<Rightarrow> world \<times> (string \<times> int) option \<Rightarrow> world \<times> (string \<times> int) option" where
  "run_schedule key evs s = fold (run_event key) evs s"

section \<open>Notions the statements use\<close>

text \<open>A call that returned, as opposed to one that raised.\<close>

definition succeeded :: "'a result \<Rightarrow> bool" where
  "succeeded res = (case fst res of Inl _ \<Rightarrow> False | Inr _ \<Rightarrow> True)"

text \<open>The pending value of a counter: an absent key counts as 0.\<close>

definition counter :: "world \<Rightarrow> string \<Rightarrow> int" where
  "counter w k = (case map_of (redis w) k of None \<Rightarrow> 0 | Some n \<Rightarrow> n)"

text \<open>The impressions the analytics table holds for a post: 0 when it has no row.\<close>

definition impressions_of :: "world \<Rightarrow> string \<Rightarrow> int" where
  "impressions_of w pid = (case post_analytics w pid of None \<Rightarrow> 0 | Some a \<Rightarrow> impressions a)"

text \<open>
  What a run owes the row of a post: the pending deltas of the enumerated keys of that
  post whose update of the analytics record (lines 47-52) goes through.
\<close>

definition saved_delta :: "world \<Rightarrow> string \<Rightarrow> string \<Rightarrow> int" where
  "saved_delta w pid k =
     (if last_segment k = pid \<and> succeeded (sync_update k w) then counter w k else 0)"

text \<open>The handlers take the cached rows only when the entry is there and not empty.\<close>

definition post_cache_hit :: "env \<Rightarrow> nat \<Rightarrow> request \<Rightarrow> world \<Rightarrow> bool" where
  "post_cache_hit e now r w =
     (cache_get now (post_cache w) (post_list_key e r) \<noteq> None \<and>
      cache_get now (post_cache w) (post_list_key e r) \<noteq> Some [])"

definition category_cache_hit :: "env \<Rightarrow> nat \<Rightarrow> request \<Rightarrow> world \<Rightarrow> bool" where
  "category_cache_hit e now r w =
     (cache_get now (category_cache w) (category_list_key e r) \<noteq> None \<and>
      cache_get now (category_cache w) (category_list_key e r) \<noteq> Some [])"

section \<open>Example data\<close>

definition cat_news :: category where
  "cat_news = \<lparr>cat_id = ''uuid-123'', cat_slug = ''news'', cat_name = ''News'',
     cat_title = ''News'', cat_description = ''Daily news'', cat_parent_slug = None\<rparr>"

definition cat_fiction :: category where
  "cat_fiction = \<lparr>cat_id = ''uuid-456'', cat_slug = ''fiction'', cat_name = ''Fiction'',
     cat_title = ''Fiction'', cat_description = ''Stories'', cat_parent_slug = None\<rparr>"

definition cat_sports :: category where
  "cat_sports = \<lparr>cat_id = ''uuid-789'', cat_slug = ''sports'', cat_name = ''Sports'',
     cat_title = ''Sports'', cat_description = ''Games'', cat_parent_slug = None\<rparr>"


definition post_a :: post where
  "post_a = \<lparr>post_id = ''p1'', post_title = ''Alpha'', post_description = ''first'',
     post_content = ''one'', post_keywords = ''a'', post_slug = ''alpha'',
     post_category = cat_news\<rparr>"

definition post_b :: post where
  "post_b = \<lparr>post_id = ''p2'', post_title = ''Beta'', post_description = ''second'',
     post_content = ''two'', post_keywords = ''b'', post_slug = ''beta'',
     post_category = cat_fiction\<rparr>"

definition post_c :: post where
  "post_c = \<lparr>post_id = ''p3'', post_title = ''Gamma'', post_description = ''third'',
     post_content = ''three'', post_keywords = ''c'', post_slug = ''gamma'',
     post_category = cat_sports\<rparr>"


text \<open>
  Stand-ins for the library functions in the examples: a strip of ASCII white space, a
  \<^verbatim>\<open>repr\<close> that quotes each item, and exception texts (for \<^verbatim>\<open>UnboundLocalError\<close> in
  the wording of Python up to 3.10).
\<close>

definition is_space :: "char \<Rightarrow> bool" where
  "is_space c = ((of_char c :: nat) \<in> set [9, 10, 11, 12, 13, 28, 29, 30, 31, 32])"

definition ascii_strip :: "string \<Rightarrow> string" where
  "ascii_strip s = rev (dropWhile is_space (rev (dropWhile is_space s)))"

fun join :: "string \<Rightarrow> string list \<Rightarrow> string" where
  "join sep [] = []"
| "join sep [x] = x"
| "join sep (x # y # ys) = x @ sep @ join sep (y # ys)"

definition quoting_repr :: "string list \<Rightarrow> string" where
  "quoting_repr xs = ''['' @ join '', '' (map (\<lambda>s. [CHR 0x27] @ s @ [CHR 0x27]) xs) @ '']''"

fun example_text :: "error \<Rightarrow> string" where
  "example_text (NotFound d) = d"
| "example_text (APIException d) = d"
| "example_text (UnboundLocalError v) =
     ''local variable '' @ [CHR 0x27] @ v @ [CHR 0x27] @ '' referenced before assignment''"
| "example_text TypeError = ''int() argument must be a string or a number''"
| "example_text (FieldError k) = ''Cannot resolve keyword '' @ k @ '' into field.''"
| "example_text IntegrityError = ''NOT NULL constraint failed''"
| "example_text (StoreError opn) = ''store operation failed''"

text \<open>A parser that accepts the token \<^verbatim>\<open>uuid-123\<close> of the spec's example and no other.\<close>

definition example_env :: env where
  "example_env = \<lparr>uuid_parse = (\<lambda>t. if t = ''uuid-123'' then Some t else None),
     order_posts = (\<lambda>field rows. rows), order_categories = (\<lambda>field rows. rows),
     str_strip = ascii_strip, list_repr = quoting_repr, exception_text = example_text\<rparr>"

definition no_params :: request where
  "no_params = \<lparr>param_search = None, param_sorting = None, param_ordering = None,
     param_category = [], param_p = None, param_parent_slug = None\<rparr>"

definition empty_world :: world where
  "empty_world = \<lparr>postobjects = [], category_rows = [],
     post_analytics = Map.empty, redis = [], post_cache = Map.empty,
     category_cache = Map.empty, faulty = (\<lambda>opn. False), log = []\<rparr>"

definition example_world :: world where
  "example_world = empty_world\<lparr>postobjects := [post_a, post_b, post_c],
     category_rows := [cat_news, cat_fiction, cat_sports]\<rparr>"

lemmas example_defs = cat_news_def cat_fiction_def cat_sports_def post_a_def post_b_def
  post_c_def example_env_def no_params_def empty_world_def example_world_def

text \<open>
  A store where post p1 has a row with 10 impressions, and a counter store with two
  pending post keys, one of them for a post without row, and one category key.
\<close>

definition sync_world :: world where
  "sync_world = example_world\<lparr>
     post_analytics :=
       [''p1'' \<mapsto> \<lparr>views = 0, impressions = 10, clicks = 0, click_through_rate = 0\<rparr>],
     redis := [(''post:impressions:p1'', 3), (''post:impressions:gone'', 2),
               (''category:impressions:uuid-123'', 5)]\<rparr>"

text \<open>The same with a counter store whose \<^verbatim>\<open>KEYS\<close> raises.\<close>

definition keys_down_world :: world where
  "keys_down_world =
     sync_world\<lparr>faulty := (\<lambda>opn. case opn of RedisKeys k \<Rightarrow> True | _ \<Rightarrow> False)\<rparr>"

text \<open>The example store after a post's title was edited.\<close>

definition retitled_world :: world where
  "retitled_world =
     example_world\<lparr>postobjects := [post_a\<lparr>post_title := ''Omega''\<rparr>, post_b, post_c]\<rparr>"






text \<open>A post with one impression and one click, and one more impression pending.\<close>

definition clicked_world :: world where
  "clicked_world = example_world\<lparr>
     post_analytics :=
       [''p1'' \<mapsto> \<lparr>views = 0, impressions = 1, clicks = 1, click_through_rate = 1\<rparr>],
     redis := [(''post:impressions:p1'', 1)]\<rparr>"

text \<open>The same, where the call that recomputes the rate raises.\<close>

definition rate_down_world :: world where
  "rate_down_world =
     clicked_world\<lparr>faulty := (\<lambda>opn. case opn of DbUpdateRate k \<Rightarrow> True | _ \<Rightarrow> False)\<rparr>"

text \<open>The example store with a counter store whose \<^verbatim>\<open>INCR\<close> raises.\<close>

definition counter_down_world :: world where
  "counter_down_world =
     example_world\<lparr>faulty := (\<lambda>opn. case opn of RedisIncr k \<Rightarrow> True | _ \<Rightarrow> False)\<rparr>"

text \<open>The example store where post p1 has a row with zero counters.\<close>

definition tracked_world :: world where
  "tracked_world = example_world\<lparr>post_analytics := [''p1'' \<mapsto> new_analytics]\<rparr>"

section \<open>The category filter\<close>







section \<open>The reconciliation task: what a run does to each key\<close>

lemmas sync_defs = sync_key_body_def sync_update_def sync_read_def sync_save_def
  sync_finish_def redis_get_def redis_delete_def get_or_create_by_post_id_def save_def
  update_click_through_rate_def

lemma sync_key_redis:
  "redis (sync_key k w) =
     (if succeeded (sync_key_body k w) then AList.delete k (redis w) else redis w)"
  by (auto simp: sync_key_def succeeded_def sync_defs Let_def
      split: prod.splits sum.splits option.splits if_splits)

lemma sync_key_log:
  "log (sync_key k w) =
     (case fst (sync_key_body k w) of
        Inl err \<Rightarrow> log w @ [Error_syncing k err]
      | Inr _ \<Rightarrow> log w)"
  by (auto simp: sync_key_def sync_defs Let_def
      split: prod.splits sum.splits option.splits if_splits)

lemma succeeded_update_iff:
  "succeeded (sync_update k w) \<longleftrightarrow>
     \<not> faulty w (RedisGet k) \<and> map_of (redis w) k \<noteq> None \<and>
     \<not> faulty w (DbGetOrCreate (last_segment k)) \<and> post_analytics w (last_segment k) \<noteq> None \<and>
     \<not> faulty w (DbSave (last_segment k))"
  by (auto simp: succeeded_def sync_defs Let_def
      split: prod.splits sum.splits option.splits if_splits)

lemma succeeded_sync_iff:
  "succeeded (sync_key_body k w) \<longleftrightarrow>
     succeeded (sync_update k w) \<and> \<not> faulty w (DbUpdateRate (last_segment k)) \<and>
     \<not> faulty w (RedisDelete k)"
  by (auto simp: succeeded_def sync_defs Let_def
      split: prod.splits sum.splits option.splits if_splits)

lemma sync_key_faulty: "faulty (sync_key k w) = faulty w"
  by (auto simp: sync_key_def sync_defs Let_def
      split: prod.splits sum.splits option.splits if_splits)

lemma sync_key_rows:
  "(post_analytics (sync_key k w) pid = None) = (post_analytics w pid = None)"
  by (auto simp: sync_key_def sync_defs Let_def
      split: prod.splits sum.splits option.splits if_splits)

text \<open>
  One iteration adds to the impressions of a row the pending delta of its key when the
  update of lines 47-52 goes through, and nothing otherwise, whatever happens afterwards.
\<close>

lemma sync_key_impressions:
  "impressions_of (sync_key k w) pid = impressions_of w pid + saved_delta w pid k"
  by (auto simp: impressions_of_def saved_delta_def counter_def succeeded_def sync_key_def
      sync_defs Let_def split: prod.splits sum.splits option.splits if_splits)

lemma sync_key_other:
  "k \<noteq> k' \<Longrightarrow> map_of (redis (sync_key k' w)) k = map_of (redis w) k"
  by (simp add: sync_key_redis)

lemma succeeded_update_other:
  "k \<noteq> k' \<Longrightarrow> succeeded (sync_update k (sync_key k' w)) = succeeded (sync_update k w)"
  by (simp add: succeeded_update_iff sync_key_faulty sync_key_rows sync_key_other)

lemma succeeded_sync_other:
  "k \<noteq> k' \<Longrightarrow> succeeded (sync_key_body k (sync_key k' w)) = succeeded (sync_key_body k w)"
  by (simp add: succeeded_sync_iff succeeded_update_other sync_key_faulty)

lemma saved_delta_other:
  "k \<noteq> k' \<Longrightarrow> saved_delta (sync_key k' w) pid k = saved_delta w pid k"
  by (simp add: saved_delta_def succeeded_update_other counter_def sync_key_other)

lemma fold_sync_frame:
  "k \<notin> set ks \<Longrightarrow> map_of (redis (fold sync_key ks w)) k = map_of (redis w) k"
  by (induction ks arbitrary: w) (auto simp: sync_key_other)

lemma fold_sync_log_mono: "set (log w) \<subseteq> set (log (fold sync_key ks w))"
proof (induction ks arbitrary: w)
  case Nil show ?case by simp
next
  case (Cons k ks)
  have "set (log w) \<subseteq> set (log (sync_key k w))"
    by (auto simp: sync_key_log split: sum.splits)
  with Cons[of "sync_key k w"] show ?case by auto
qed

lemma fold_sync_keys:
  "distinct ks \<Longrightarrow> k \<in> set ks \<Longrightarrow>
   (if succeeded (sync_key_body k w)
    then map_of (redis (fold sync_key ks w)) k = None
    else map_of (redis (fold sync_key ks w)) k = map_of (redis w) k \<and>
         (\<exists>err. Error_syncing k err \<in> set (log (fold sync_key ks w))))"
proof (induction ks arbitrary: w)
  case Nil then show ?case by simp
next
  case (Cons k' ks)
  show ?case
  proof (cases "k = k'")
    case True
    then have notin: "k \<notin> set ks" using Cons.prems by simp
    have fr: "map_of (redis (fold sync_key ks (sync_key k w))) k = map_of (redis (sync_key k w)) k"
      by (rule fold_sync_frame[OF notin])
    show ?thesis
    proof (cases "succeeded (sync_key_body k w)")
      case ok: True
      then show ?thesis using True fr by (simp add: sync_key_redis AList.delete_conv')
    next
      case bad: False
      then obtain err where e: "fst (sync_key_body k w) = Inl err"
        by (auto simp: succeeded_def split: sum.splits)
      have "Error_syncing k err \<in> set (log (sync_key k w))"
        using e by (simp add: sync_key_log)
      then have "Error_syncing k err \<in> set (log (fold sync_key ks (sync_key k w)))"
        using fold_sync_log_mono by blast
      then show ?thesis using True fr bad by (auto simp: sync_key_redis)
    qed
  next
    case False
    then have kin: "k \<in> set ks" and d: "distinct ks" using Cons.prems by auto
    from Cons.IH[OF d kin, of "sync_key k' w"] False
    show ?thesis by (simp add: succeeded_sync_other sync_key_other)
  qed
qed

lemma fold_sync_impressions:
  "distinct ks \<Longrightarrow>
   impressions_of (fold sync_key ks w) pid =
     impressions_of w pid + sum_list (map (saved_delta w pid) ks)"
proof (induction ks arbitrary: w)
  case Nil show ?case by simp
next
  case (Cons k ks)
  then have d: "distinct ks" and notin: "k \<notin> set ks" by auto
  have same: "map (saved_delta (sync_key k w) pid) ks = map (saved_delta w pid) ks"
  proof (rule map_cong[OF refl])
    fix k' assume "k' \<in> set ks"
    with notin have "k' \<noteq> k" by auto
    then show "saved_delta (sync_key k w) pid k' = saved_delta w pid k'"
      by (rule saved_delta_other)
  qed
  from Cons.IH[OF d, of "sync_key k w"] show ?case
    by (simp add: same sync_key_impressions)
qed

lemma redis_keys_facts:
  assumes "redis_keys pre w = (Inr keys, w0)"
  shows "w0 = w" and "distinct keys" and "\<forall>k\<in>set keys. map_of (redis w) k \<noteq> None"
  using assms by (auto simp: redis_keys_def map_of_eq_None_iff split: if_splits)

text \<open>
  C3, as amended. In a run of the reconciliation task whose enumeration of the pending
  keys returned, the task returns and does not raise, and for every enumerated key: the
  key is gone from the counter store afterwards exactly when the whole iteration for it
  went through, and then the update of the analytics record (lines 47-52) went through
  before the delete; when any step raised, the key is still there with its value and a
  line for the key and the cause was printed. The other keys are processed all the
  same. The impressions of every row have grown by the pending deltas of the enumerated
  keys of its post whose update went through, so the delta of every deleted key has
  been added.
\<close>

theorem sync_failure_isolated:
  assumes "redis_keys ''post:impressions:'' w = (Inr keys, w0)"
  shows "\<exists>w'. sync_impressions_to_db w = (Inr (), w') \<and>
     (\<forall>k\<in>set keys.
        (map_of (redis w') k = None \<longleftrightarrow> succeeded (sync_key_body k w)) \<and>
        (succeeded (sync_key_body k w) \<longrightarrow> succeeded (sync_update k w)) \<and>
        (\<not> succeeded (sync_key_body k w) \<longrightarrow>
           map_of (redis w') k = map_of (redis w) k \<and>
           (\<exists>err. Error_syncing k err \<in> set (log w')))) \<and>
     (\<forall>pid. impressions_of w' pid =
        impressions_of w pid + sum_list (map (saved_delta w pid) keys))"
proof -
  from redis_keys_facts[OF assms] have w0: "w0 = w" and d: "distinct keys"
    and present: "\<forall>k\<in>set keys. map_of (redis w) k \<noteq> None" by auto
  let ?w' = "fold sync_key keys w"
  have run: "sync_impressions_to_db w = (Inr (), ?w')"
    using assms w0 by (simp add: sync_impressions_to_db_def)
  have each: "\<forall>k\<in>set keys.
        (map_of (redis ?w') k = None \<longleftrightarrow> succeeded (sync_key_body k w)) \<and>
        (succeeded (sync_key_body k w) \<longrightarrow> succeeded (sync_update k w)) \<and>
        (\<not> succeeded (sync_key_body k w) \<longrightarrow>
           map_of (redis ?w') k = map_of (redis w) k \<and>
           (\<exists>err. Error_syncing k err \<in> set (log ?w')))"
  proof
    fix k assume kin: "k \<in> set keys"
    from present kin have p: "map_of (redis w) k \<noteq> None" by blast
    from fold_sync_keys[OF d kin, of w] p
    show "(map_of (redis ?w') k = None \<longleftrightarrow> succeeded (sync_key_body k w)) \<and>
        (succeeded (sync_key_body k w) \<longrightarrow> succeeded (sync_update k w)) \<and>
        (\<not> succeeded (sync_key_body k w) \<longrightarrow>
           map_of (redis ?w') k = map_of (redis w) k \<and>
           (\<exists>err. Error_syncing k err \<in> set (log ?w')))"
      by (cases "succeeded (sync_key_body k w)") (auto simp: succeeded_sync_iff)
  qed
  have total: "\<forall>pid. impressions_of ?w' pid =
        impressions_of w pid + sum_list (map (saved_delta w pid) keys)"
    using fold_sync_impressions[OF d] by blast
  from run each total show ?thesis by blast
qed

text \<open>
  C3 as stated fails where it says that the job never crashes: the enumeration of
  line 44 is outside the \<^verbatim>\<open>try\<close>, and when it raises, the task raises.
\<close>

theorem enumeration_failure_raises_counterexample:
  "sync_impressions_to_db keys_down_world =
     (Inl (StoreError (RedisKeys ''post:impressions:'')), keys_down_world)"
  by (simp add: sync_impressions_to_db_def redis_keys_def keys_down_world_def)

lemma sync_world_keys:
  "redis_keys ''post:impressions:'' sync_world =
     (Inr [''post:impressions:p1'', ''post:impressions:gone''], sync_world)"
  by (simp add: redis_keys_def sync_world_def example_defs)

lemma sync_world_p1: "succeeded (sync_key_body ''post:impressions:p1'' sync_world)"
  by (simp add: succeeded_sync_iff succeeded_update_iff last_segment_def sync_world_def
      example_defs)

lemma sync_world_gone: "\<not> succeeded (sync_key_body ''post:impressions:gone'' sync_world)"
  by (simp add: succeeded_sync_iff succeeded_update_iff last_segment_def sync_world_def
      example_defs)

lemma sync_world_sum:
  "impressions_of sync_world ''p1'' +
     sum_list (map (saved_delta sync_world ''p1'')
       [''post:impressions:p1'', ''post:impressions:gone'']) = 13"
  by (simp add: impressions_of_def saved_delta_def counter_def succeeded_update_iff
      last_segment_def sync_world_def example_defs)

text \<open>
  Two pending post keys: the one of a post with a row drains (10 + 3 impressions), the
  one of a post without row stays with its value and is printed.
\<close>

theorem sync_failure_isolated_witness:
  "\<exists>w'. sync_impressions_to_db sync_world = (Inr (), w') \<and>
     map_of (redis w') ''post:impressions:p1'' = None \<and>
     impressions_of w' ''p1'' = 13 \<and>
     map_of (redis w') ''post:impressions:gone'' = Some 2 \<and>
     (\<exists>err. Error_syncing ''post:impressions:gone'' err \<in> set (log w'))"
proof -
  from sync_failure_isolated[OF sync_world_keys]
  obtain w' where run: "sync_impressions_to_db sync_world = (Inr (), w')"
    and each: "\<forall>k\<in>set [''post:impressions:p1'', ''post:impressions:gone''].
        (map_of (redis w') k = None \<longleftrightarrow> succeeded (sync_key_body k sync_world)) \<and>
        (succeeded (sync_key_body k sync_world) \<longrightarrow> succeeded (sync_update k sync_world)) \<and>
        (\<not> succeeded (sync_key_body k sync_world) \<longrightarrow>
           map_of (redis w') k = map_of (redis sync_world) k \<and>
           (\<exists>err. Error_syncing k err \<in> set (log w')))"
    and total: "\<forall>pid. impressions_of w' pid = impressions_of sync_world pid +
        sum_list (map (saved_delta sync_world pid)
          [''post:impressions:p1'', ''post:impressions:gone''])"
    by blast
  from each sync_world_p1 have a: "map_of (redis w') ''post:impressions:p1'' = None" by simp
  from each sync_world_gone
  have b: "map_of (redis w') ''post:impressions:gone'' =
           map_of (redis sync_world) ''post:impressions:gone''"
    and c: "\<exists>err. Error_syncing ''post:impressions:gone'' err \<in> set (log w')" by simp_all
  have g: "map_of (redis sync_world) ''post:impressions:gone'' = Some 2"
    by (simp add: sync_world_def example_defs)
  from total sync_world_sum have t: "impressions_of w' ''p1'' = 13" by simp
  from run a b c g t show ?thesis by auto
qed

section \<open>The counter loop of the handlers\<close>

lemma redis_incr_frame:
  "post_cache (snd (redis_incr k w)) = post_cache w"
  "category_cache (snd (redis_incr k w)) = category_cache w"
  "faulty (snd (redis_incr k w)) = faulty w"
  "post_analytics (snd (redis_incr k w)) = post_analytics w"
  "postobjects (snd (redis_incr k w)) = postobjects w"
  "log (snd (redis_incr k w)) = log w"
  by (simp_all add: redis_incr_def Let_def)


lemma redis_incr_fails:
  "faulty w (RedisIncr k) \<Longrightarrow> redis_incr k w = (Inl (StoreError (RedisIncr k)), w)"
  by (simp add: redis_incr_def)

lemma incr_impressions_frame:
  "post_cache (snd (incr_impressions pre ids w)) = post_cache w \<and>
   category_cache (snd (incr_impressions pre ids w)) = category_cache w \<and>
   faulty (snd (incr_impressions pre ids w)) = faulty w \<and>
   post_analytics (snd (incr_impressions pre ids w)) = post_analytics w \<and>
   postobjects (snd (incr_impressions pre ids w)) = postobjects w \<and>
   log (snd (incr_impressions pre ids w)) = log w"
proof (induction ids arbitrary: w)
  case Nil show ?case by simp
next
  case (Cons i ids)
  show ?case
  proof (cases "redis_incr (pre @ i) w")
    case (Pair res w1)
    have fr: "post_cache w1 = post_cache w" "category_cache w1 = category_cache w"
      "faulty w1 = faulty w" "post_analytics w1 = post_analytics w"
      "postobjects w1 = postobjects w" "log w1 = log w"
      using Pair redis_incr_frame[of "pre @ i" w] by simp_all
    show ?thesis
    proof (cases res)
      case (Inl err)
      with Pair fr show ?thesis by simp
    next
      case (Inr v)
      with Pair fr Cons.IH[of w1] show ?thesis by simp
    qed
  qed
qed



section \<open>The ordering branch of the category list\<close>

text \<open>
  C10. A category list request with \<^verbatim>\<open>ordering\<close> \<^verbatim>\<open>az\<close> or \<^verbatim>\<open>za\<close> that does not
  take the cached rows never returns a list: it ends in the generic
  \<^verbatim>\<open>APIException\<close> of the handler. When the base set is not empty the cause is the
  read of the unassigned local \<^verbatim>\<open>posts\<close> (or, with \<^verbatim>\<open>sorting\<close>
  \<^verbatim>\<open>most_viewed\<close>, the \<^verbatim>\<open>FieldError\<close> raised just before); when it is empty the
  cause is the \<^verbatim>\<open>NotFound\<close> raised before, caught by the same handler. Nothing is
  cached and no counter is incremented.
\<close>

theorem category_ordering_raises_unexpected_error:
  assumes "param_ordering r = Some ''az'' \<or> param_ordering r = Some ''za''"
    and "\<not> category_cache_hit e now r w"
  shows "CategoryListView_get e now r w =
     (Inl (APIException (''An unexpected error occurred: '' @
        (if category_base r w = [] then ''No categories found.''
         else if param_sorting r = Some ''most_viewed''
           then error_str e (FieldError ''analytics_cache'')
         else error_str e (UnboundLocalError ''posts'')))), w)"
  using assms
  by (auto simp: CategoryListView_get_def category_list_body_def category_cache_hit_def
      category_list_query_def apply_category_sorting_def apply_category_ordering_def
      truthy_def wrap_unexpected_def error_str_def Let_def)

text \<open>
  The example store, with the exception text of the example environment.
\<close>

theorem category_ordering_raises_unexpected_error_witness:
  "CategoryListView_get example_env 0 (no_params\<lparr>param_ordering := Some ''az''\<rparr>) example_world =
     (Inl (APIException
        (''An unexpected error occurred: local variable '' @ [CHR 0x27] @ ''posts'' @ [CHR 0x27] @
         '' referenced before assignment'')), example_world)"
proof -
  have h1: "param_ordering (no_params\<lparr>param_ordering := Some ''az''\<rparr>) = Some ''az'' \<or>
            param_ordering (no_params\<lparr>param_ordering := Some ''az''\<rparr>) = Some ''za''" by simp
  have h2: "\<not> category_cache_hit example_env 0 (no_params\<lparr>param_ordering := Some ''az''\<rparr>)
              example_world"
    by (simp add: category_cache_hit_def cache_get_def example_defs)
  have h3: "category_base (no_params\<lparr>param_ordering := Some ''az''\<rparr>) example_world \<noteq> []"
    by (simp add: category_base_def truthy_def example_defs)
  have h4: "param_sorting (no_params\<lparr>param_ordering := Some ''az''\<rparr>) \<noteq> Some ''most_viewed''"
    by (simp add: no_params_def)
  have h5: "error_str example_env (UnboundLocalError ''posts'') =
      ''local variable '' @ [CHR 0x27] @ ''posts'' @ [CHR 0x27] @ '' referenced before assignment''"
    by (simp add: error_str_def example_env_def)
  show ?thesis
    using category_ordering_raises_unexpected_error[OF h1 h2] h3 h4 h5 by simp
qed

section \<open>What a miss stores in the cache\<close>

lemma post_list_miss_entry:
  assumes "\<not> post_cache_hit e now r w" and "postobjects w \<noteq> []"
    and "post_list_query e r (postobjects w) = Inr rows"
  shows "post_cache (snd (PostListView_get e now r w)) (post_list_key e r) =
           Some (rows, now + 300)"
proof -
  let ?w1 = "w\<lparr>post_cache := cache_set now (post_cache w) (post_list_key e r) rows (60 * 5)\<rparr>"
  have body: "snd (post_list_body e now r w) =
      snd (incr_impressions ''post:impressions:'' (map post_id rows) ?w1)"
    using assms
    by (auto simp: post_list_body_def post_cache_hit_def Let_def split: prod.splits sum.splits)
  have "snd (PostListView_get e now r w) = snd (post_list_body e now r w)"
    by (auto simp: PostListView_get_def wrap_unexpected_def split: prod.splits sum.splits)
  then show ?thesis
    using body incr_impressions_frame[of "''post:impressions:''" "map post_id rows" ?w1]
    by (simp add: cache_set_def)
qed

lemma category_list_miss_entry:
  assumes "\<not> category_cache_hit e now r w" and "category_base r w \<noteq> []"
    and "category_list_query e r (category_base r w) = Inr rows"
  shows "category_cache (snd (CategoryListView_get e now r w)) (category_list_key e r) =
           Some (rows, now + 300)"
proof -
  let ?w1 = "w\<lparr>category_cache :=
               cache_set now (category_cache w) (category_list_key e r) rows (60 * 5)\<rparr>"
  have body: "snd (category_list_body e now r w) =
      snd (incr_impressions ''category:impressions:'' (map cat_id rows) ?w1)"
    using assms
    by (auto simp: category_list_body_def category_cache_hit_def Let_def
        split: prod.splits sum.splits)
  have "snd (CategoryListView_get e now r w) = snd (category_list_body e now r w)"
    by (auto simp: CategoryListView_get_def wrap_unexpected_def split: prod.splits sum.splits)
  then show ?thesis
    using body incr_impressions_frame[of "''category:impressions:''" "map cat_id rows" ?w1]
    by (simp add: cache_set_def)
qed

text \<open>
  C6, as amended. On a miss of the post list or of the category list, with a base set
  that is not empty and a query that is built without error, what is stored under the
  query signature is the ordered sequence of the full rows the query returned (not their
  identifiers), whatever the time of the request; the entry expires 300 seconds after
  the request: a lookup returns the rows before that time and nothing from then on.
\<close>

theorem miss_caches_full_rows_for_300_seconds:
  "(\<not> post_cache_hit e now r w \<and> postobjects w \<noteq> [] \<and>
    post_list_query e r (postobjects w) = Inr rows
    \<longrightarrow> post_cache (snd (PostListView_get e now r w)) (post_list_key e r) =
          Some (rows, now + 300) \<and>
        cache_get t (post_cache (snd (PostListView_get e now r w))) (post_list_key e r) =
          (if t < now + 300 then Some rows else None)) \<and>
   (\<not> category_cache_hit e now r w \<and> category_base r w \<noteq> [] \<and>
    category_list_query e r (category_base r w) = Inr crows
    \<longrightarrow> category_cache (snd (CategoryListView_get e now r w)) (category_list_key e r) =
          Some (crows, now + 300) \<and>
        cache_get t (category_cache (snd (CategoryListView_get e now r w)))
            (category_list_key e r) =
          (if t < now + 300 then Some crows else None))"
  using post_list_miss_entry[of e now r w rows] category_list_miss_entry[of e now r w crows]
  by (simp add: cache_get_def)

lemma no_params_query: "post_list_query example_env no_params rows = Inr rows"
  by (simp add: post_list_query_def ascii_strip_def get_default_def filter_by_categories_def
      apply_post_sorting_def apply_post_ordering_def truthy_def example_defs)

lemma no_params_category_query: "category_list_query example_env no_params rows = Inr rows"
  by (simp add: category_list_query_def ascii_strip_def get_default_def
      apply_category_sorting_def apply_category_ordering_def truthy_def example_defs)

lemma example_miss: "\<not> post_cache_hit example_env now no_params example_world"
  by (simp add: post_cache_hit_def cache_get_def example_defs)

lemma retitled_miss: "\<not> post_cache_hit example_env now no_params retitled_world"
  by (simp add: post_cache_hit_def cache_get_def retitled_world_def example_defs)

lemma example_category_miss: "\<not> category_cache_hit example_env now no_params example_world"
  by (simp add: category_cache_hit_def cache_get_def example_defs)

lemma example_category_base:
  "category_base no_params example_world = [cat_news, cat_fiction, cat_sports]"
  by (simp add: category_base_def truthy_def example_defs)

text \<open>
  C6 as stated fails: two stores whose posts have the same identifiers in the same order
  and differ in a title give different cache entries for the same request at the same
  time, so the entry is not a sequence of identifiers.
\<close>

theorem cache_entry_holds_full_rows_counterexample:
  "post_cache (snd (PostListView_get example_env 100 no_params example_world))
       (post_list_key example_env no_params) = Some ([post_a, post_b, post_c], 400) \<and>
   post_cache (snd (PostListView_get example_env 100 no_params retitled_world))
       (post_list_key example_env no_params) =
     Some ([post_a\<lparr>post_title := ''Omega''\<rparr>, post_b, post_c], 400) \<and>
   map post_id [post_a, post_b, post_c] =
     map post_id [post_a\<lparr>post_title := ''Omega''\<rparr>, post_b, post_c] \<and>
   [post_a, post_b, post_c] \<noteq> [post_a\<lparr>post_title := ''Omega''\<rparr>, post_b, post_c]"
proof -
  have a: "postobjects example_world \<noteq> []" by (simp add: example_defs)
  have b: "postobjects retitled_world \<noteq> []" by (simp add: retitled_world_def)
  have pa: "postobjects example_world = [post_a, post_b, post_c]" by (simp add: example_defs)
  have pb: "postobjects retitled_world = [post_a\<lparr>post_title := ''Omega''\<rparr>, post_b, post_c]"
    by (simp add: retitled_world_def)
  have t: "post_a \<noteq> post_a\<lparr>post_title := ''Omega''\<rparr>" by (simp add: post_a_def)
  show ?thesis
    using post_list_miss_entry[where e = example_env and now = 100, OF example_miss a no_params_query]
      post_list_miss_entry[where e = example_env and now = 100, OF retitled_miss b no_params_query] t
    by (simp add: pa pb)
qed

text \<open>
  The example store at time 100: the entries serve until 399 and are gone at 400.
\<close>

theorem miss_caches_full_rows_for_300_seconds_witness:
  "post_cache (snd (PostListView_get example_env 100 no_params example_world))
       (post_list_key example_env no_params) = Some ([post_a, post_b, post_c], 400) \<and>
   cache_get 399 (post_cache (snd (PostListView_get example_env 100 no_params example_world)))
       (post_list_key example_env no_params) = Some [post_a, post_b, post_c] \<and>
   cache_get 400 (post_cache (snd (PostListView_get example_env 100 no_params example_world)))
       (post_list_key example_env no_params) = None \<and>
   category_cache (snd (CategoryListView_get example_env 100 no_params example_world))
       (category_list_key example_env no_params) =
     Some ([cat_news, cat_fiction, cat_sports], 400) \<and>
   cache_get 400 (category_cache (snd (CategoryListView_get example_env 100 no_params example_world)))
       (category_list_key example_env no_params) = None"
proof -
  have a: "postobjects example_world \<noteq> []" by (simp add: example_defs)
  have pa: "postobjects example_world = [post_a, post_b, post_c]" by (simp add: example_defs)
  have q: "post_list_query example_env no_params (postobjects example_world) =
             Inr [post_a, post_b, post_c]"
    by (simp add: no_params_query pa)
  have c: "category_base no_params example_world \<noteq> []" by (simp add: example_category_base)
  have cq: "category_list_query example_env no_params (category_base no_params example_world) =
             Inr [cat_news, cat_fiction, cat_sports]"
    by (simp add: no_params_category_query example_category_base)
  show ?thesis
    using miss_caches_full_rows_for_300_seconds
        [where e = example_env and now = 100 and t = 399 and r = no_params
           and w = example_world and rows = "[post_a, post_b, post_c]"
           and crows = "[cat_news, cat_fiction, cat_sports]"]
      miss_caches_full_rows_for_300_seconds
        [where e = example_env and now = 100 and t = 400 and r = no_params
           and w = example_world and rows = "[post_a, post_b, post_c]"
           and crows = "[cat_news, cat_fiction, cat_sports]"]
      example_miss example_category_miss a q c cq
    by simp
qed

section \<open>Serving from the cache\<close>






lemmas post_eval = PostListView_get_def wrap_unexpected_def post_list_body_def Let_def
  cache_get_def cache_set_def redis_incr_def











lemmas query_eval = post_list_query_def ascii_strip_def is_space_def get_default_def
  filter_by_categories_def filter_posts_def search_query_def apply_post_sorting_def
  apply_post_ordering_def truthy_def token_matches_def


section \<open>The persisted click-through rate\<close>

text \<open>
  After a click that went through, the saved row has the rate of its own counters
  (\<^verbatim>\<open>increment_click\<close> is modelled from the spec).
\<close>

lemma click_keeps_rate:
  assumes "IncrementPostClickView_post e slug w = (Inr c, w')"
  shows "\<exists>p a. find (\<lambda>p. post_slug p = slug) (postobjects w) = Some p \<and>
           post_analytics w' (post_id p) = Some a \<and> clicks a = c \<and>
           click_through_rate a = ctr_of (clicks a) (impressions a)"
  using assms
  by (auto simp: IncrementPostClickView_post_def increment_click_def
      get_or_create_for_post_def update_click_through_rate_def Let_def
      split: option.splits prod.splits sum.splits if_splits)

text \<open>
  After an iteration of the reconciliation task that went through, the row has the rate
  of its own counters (\<^verbatim>\<open>_update_click_through_rate\<close> is modelled from the spec).
\<close>

lemma flush_keeps_rate:
  assumes "succeeded (sync_key_body k w)"
  shows "\<exists>a. post_analytics (sync_key k w) (last_segment k) = Some a \<and>
           click_through_rate a = ctr_of (clicks a) (impressions a)"
  using assms
  by (auto simp: succeeded_def sync_key_def sync_defs Let_def
      split: prod.splits sum.splits option.splits if_splits)

text \<open>
  C1, at a failing input. A post has 1 impression, 1 click and the rate 1; one more
  impression is pending. The \<^verbatim>\<open>save()\<close> of line 52 writes the row with 2 impressions
  and the rate 1 of the old counters, before the rate is recomputed at line 54: that is
  the stored row after line 52, whatever line 54 does. When the call of line 54 raises,
  it stays: the run returns, the row has 2 impressions, 1 click and the rate 1, where
  the rate of its own counters is 1/2; the failure is printed and the key is kept.
\<close>

theorem flush_persists_stale_rate:
  "post_analytics (snd (sync_update ''post:impressions:p1'' clicked_world)) ''p1'' =
     Some \<lparr>views = 0, impressions = 2, clicks = 1, click_through_rate = 1\<rparr> \<and>
   fst (sync_impressions_to_db rate_down_world) = Inr () \<and>
   post_analytics (snd (sync_impressions_to_db rate_down_world)) ''p1'' =
     Some \<lparr>views = 0, impressions = 2, clicks = 1, click_through_rate = 1\<rparr> \<and>
   ctr_of 1 2 = 1 / 2 \<and>
   log (snd (sync_impressions_to_db rate_down_world)) =
     [Error_syncing ''post:impressions:p1'' (StoreError (DbUpdateRate ''p1''))] \<and>
   map_of (redis (snd (sync_impressions_to_db rate_down_world))) ''post:impressions:p1'' = Some 1"
  by (simp add: sync_impressions_to_db_def redis_keys_def sync_key_def sync_defs
      last_segment_def ctr_of_def Let_def rate_down_world_def clicked_world_def
      empty_world_def example_world_def)

section \<open>Empty results of the post list\<close>

text \<open>
  C2, at failing inputs. With no post in the store, the \<^verbatim>\<open>NotFound\<close> the handler
  raises is caught by its own \<^verbatim>\<open>except Exception\<close> and leaves as an
  \<^verbatim>\<open>APIException\<close>, status 500. With posts in the store and a category or search
  filter that selects none of them, the handler returns a page with no rows: the
  existence check is made before the filters.
\<close>

theorem zero_rows_not_reported_as_not_found:
  "PostListView_get example_env 0 (no_params\<lparr>param_category := [''poetry'']\<rparr>) empty_world =
     (Inl (APIException ''An unexpected error occurred: No posts found.''), empty_world) \<and>
   status_code (APIException ''An unexpected error occurred: No posts found.'') = 500 \<and>
   fst (PostListView_get example_env 0 (no_params\<lparr>param_category := [''poetry'']\<rparr>) example_world) =
     Inr (PostPage (no_params\<lparr>param_category := [''poetry'']\<rparr>) []) \<and>
   fst (PostListView_get example_env 0 (no_params\<lparr>param_search := Some ''zebra''\<rparr>) example_world) =
     Inr (PostPage (no_params\<lparr>param_search := Some ''zebra''\<rparr>) [])"
  by (simp add: post_eval query_eval error_str_def icontains_def lower_char_def sublist_code
      example_defs)

section \<open>The keys the reconciliation task enumerates\<close>

lemma post_keys_only:
  "redis_keys ''post:impressions:'' w = (Inr keys, w0) \<Longrightarrow>
   ''category:impressions:'' @ cid \<notin> set keys"
  by (auto simp: redis_keys_def split: if_splits)

text \<open>
  C4, where it fails. A run of the reconciliation task, whatever the state and whether it
  raises or not, leaves every category impression counter as it was: the task enumerates
  \<^verbatim>\<open>post:impressions:*\<close> only, and \<^verbatim>\<open>CategoryListView.get\<close> writes
  \<^verbatim>\<open>category:impressions:<id>\<close>.
\<close>

theorem category_counters_never_drained:
  "map_of (redis (snd (sync_impressions_to_db w))) (''category:impressions:'' @ cid) =
     map_of (redis w) (''category:impressions:'' @ cid)"
proof (cases "redis_keys ''post:impressions:'' w")
  case (Pair res w0)
  show ?thesis
  proof (cases res)
    case (Inl err)
    with Pair show ?thesis
      by (auto simp: sync_impressions_to_db_def redis_keys_def split: if_splits)
  next
    case (Inr keys)
    with Pair have k: "redis_keys ''post:impressions:'' w = (Inr keys, w0)" by simp
    from redis_keys_facts(1)[OF k] have w0: "w0 = w" .
    from post_keys_only[OF k] have "''category:impressions:'' @ cid \<notin> set keys" .
    from fold_sync_frame[OF this] k w0 show ?thesis
      by (simp add: sync_impressions_to_db_def)
  qed
qed

section \<open>A failing counter store on the read path\<close>

text \<open>
  C8, at a failing input. With a cold cache, three posts in the store and a counter store
  whose \<^verbatim>\<open>INCR\<close> raises, the post list does not return the posts: the exception of
  the counter store is caught by the handler's \<^verbatim>\<open>except Exception\<close> and goes to the
  requester as an \<^verbatim>\<open>APIException\<close>, status 500. Nothing is logged.
\<close>

theorem counter_failure_fails_the_read:
  "fst (PostListView_get example_env 0 no_params counter_down_world) =
     Inl (APIException ''An unexpected error occurred: store operation failed'') \<and>
   status_code (APIException ''An unexpected error occurred: store operation failed'') = 500 \<and>
   log (snd (PostListView_get example_env 0 no_params counter_down_world)) = []"
  by (simp add: post_eval query_eval error_str_def counter_down_world_def example_defs)

section \<open>Increments during a reconciliation run\<close>

text \<open>With nothing in between, the two steps of the task are one iteration of its loop.\<close>

lemma schedule_without_interleaving:
  "run_schedule key [JobRead, JobFlush] (w, None) = (sync_key key w, None)"
  by (auto simp: run_schedule_def sync_key_def sync_key_body_def sync_update_def
      sync_read_def last_segment_def Let_def
      split: prod.splits sum.splits option.splits)

text \<open>
  C9, at a failing schedule, for a post that has a row with zero counters. One increment,
  the task's read (delta 1), a second increment, then the rest of the task's iteration:
  the row gets 1 impression, the key is deleted with the second increment in it, and
  nothing is pending. Two increments were made, one was drained.
\<close>

theorem increment_between_read_and_delete_is_lost:
  "post_analytics
     (fst (run_schedule ''post:impressions:p1'' [ClientIncr, JobRead, ClientIncr, JobFlush]
             (tracked_world, None))) ''p1'' =
     Some \<lparr>views = 0, impressions = 1, clicks = 0, click_through_rate = 0\<rparr> \<and>
   map_of (redis
     (fst (run_schedule ''post:impressions:p1'' [ClientIncr, JobRead, ClientIncr, JobFlush]
             (tracked_world, None)))) ''post:impressions:p1'' = None \<and>
   length (filter (\<lambda>ev. ev = ClientIncr) [ClientIncr, JobRead, ClientIncr, JobFlush]) = 2"
  by (simp add: run_schedule_def sync_defs redis_incr_def last_segment_def ctr_of_def
      new_analytics_def Let_def tracked_world_def example_defs)

end
